theory Spec2Isabelle
  imports Main "HOL-Library.Sublist"
begin

section \<open>The HeidelTime wrapper of \<^verbatim>\<open>python_heidelTime.py\<close>\<close>

text \<open>
  The class \<^verbatim>\<open>HeidelTime\<close> keeps a handful of settings, checks them when they
  are set, and in \<^verbatim>\<open>parse\<close> writes the text to a temporary file, runs the Java
  tagger on it and hands back what the tagger printed. The embedding below follows the
  methods of the class one by one. Exceptions are values of the type \<open>exn\<close>, the object is
  a record that every method receives and returns, and the disk and the child processes
  are a record \<open>world\<close> that \<open>parse\<close> threads through.

  A Python \<^verbatim>\<open>str\<close> is modelled as a \<open>string\<close>; one \<open>char\<close> stands for one code point
  below 256. A \<^verbatim>\<open>bytes\<close> value is a list of \<open>char\<close> as well, one per byte. Paths are
  those of \<^verbatim>\<open>pathlib\<close> on a POSIX system. The values of a configuration mapping have
  the types that the annotations of the setters give them.
\<close>

subsection \<open>Strings\<close>

type_synonym bytes = "char list"

text \<open>\<^verbatim>\<open>str.lower()\<close> on code points below 256: A to Z, and the capital letters
  of Latin-1 (all of 0xC0 to 0xDE but the multiplication sign), move up by 32.\<close>

definition lower_char :: "char \<Rightarrow> char" where
  "lower_char c =
     (let n = (of_char c :: nat) in
      if (65 \<le> n \<and> n \<le> 90) \<or> (192 \<le> n \<and> n \<le> 222 \<and> n \<noteq> 215)
      then char_of (n + 32) else c)"

definition lower :: "string \<Rightarrow> string" where
  "lower s = map lower_char s"

text \<open>\<^verbatim>\<open>sep.join(xs)\<close>.\<close>

fun join :: "string \<Rightarrow> string list \<Rightarrow> string" where
  "join sep [] = []"
| "join sep [x] = x"
| "join sep (x # y # ys) = x @ sep @ join sep (y # ys)"

text \<open>\<^verbatim>\<open>repr\<close> of a list of strings that need no escaping, which is how an f-string
  prints the three constant lists below.\<close>

definition repr_list :: "string list \<Rightarrow> string" where
  "repr_list xs = ''['' @ join '', '' (map (\<lambda>s. [CHR 0x27] @ s @ [CHR 0x27]) xs) @ '']''"

definition AVAILABLE_LANGUAGES :: "string list" where
  "AVAILABLE_LANGUAGES =
     [''arabic'', ''chinese'', ''croatian'', ''dutch'', ''english'', ''englishcoll'',
      ''englishsci'', ''estonian'', ''french'', ''german'', ''italian'', ''portuguese'',
      ''russian'', ''spanish'', ''vietnamese'']"

definition AVAILABLE_DOCUMENT_TYPES :: "string list" where
  "AVAILABLE_DOCUMENT_TYPES = [''colloquial'', ''narratives'', ''news'', ''scientific'']"

definition AVAILABLE_OUTPUT_TYPES :: "string list" where
  "AVAILABLE_OUTPUT_TYPES = [''timeml'', ''xmi'']"

subsection \<open>Paths\<close>

text \<open>
  A \<^verbatim>\<open>PurePosixPath\<close> is its root (empty, one slash or two) and its components.
  \<open>Path\<close> parses a string as the constructor of \<^verbatim>\<open>pathlib\<close> does: the string is
  cut at every slash, empty components and single dots are dropped, and exactly two leading
  slashes are kept as a root of their own.
\<close>

datatype path = PurePath (root: string) (parts: "string list")

fun split_sep :: "string \<Rightarrow> string list" where
  "split_sep [] = [[]]"
| "split_sep (c # cs) =
     (if c = CHR ''/'' then [] # split_sep cs
      else (case split_sep cs of [] \<Rightarrow> [[c]] | x # xs \<Rightarrow> (c # x) # xs))"

definition splitroot :: "string \<Rightarrow> string" where
  "splitroot s =
     (if take 1 s \<noteq> ''/'' then []
      else if take 1 (drop 1 s) \<noteq> ''/'' \<or> take 1 (drop 2 s) = ''/'' then ''/''
      else ''//'')"

definition Path :: "string \<Rightarrow> path" where
  "Path s = PurePath (splitroot s) (filter (\<lambda>x. x \<noteq> [] \<and> x \<noteq> ''.'') (split_sep s))"

text \<open>\<^verbatim>\<open>str(p)\<close>, which is also \<^verbatim>\<open>p.as_posix()\<close> and what \<^verbatim>\<open>os.fspath\<close>
  gives to the operating system.\<close>

definition str_path :: "path \<Rightarrow> string" where
  "str_path p =
     (if root p \<noteq> [] then root p @ join ''/'' (parts p)
      else if parts p = [] then ''.''
      else join ''/'' (parts p))"

text \<open>\<^verbatim>\<open>p / s\<close>: an absolute right-hand side replaces the left one.\<close>

definition path_join :: "path \<Rightarrow> string \<Rightarrow> path" where
  "path_join p s =
     (let q = Path s in
      if root q \<noteq> [] then q else PurePath (root p) (parts p @ parts q))"

text \<open>\<^verbatim>\<open>p.absolute()\<close>, with the working directory as \<^verbatim>\<open>os.getcwd()\<close> gives it.\<close>

definition absolute :: "string \<Rightarrow> path \<Rightarrow> path" where
  "absolute getcwd p =
     (if root p \<noteq> [] then p
      else PurePath (root (Path getcwd)) (parts (Path getcwd) @ parts p))"

subsection \<open>Dates\<close>

text \<open>
  \<^verbatim>\<open>__init__\<close> stores a \<^verbatim>\<open>date\<close> and \<^verbatim>\<open>set_time\<close> a \<^verbatim>\<open>datetime\<close>; both answer
  \<^verbatim>\<open>strftime\<close>. A \<^verbatim>\<open>datetime\<close> that \<^verbatim>\<open>strptime\<close> builds from a format without
  a time of day is at midnight.
\<close>

datatype pydate = Date nat nat nat | Datetime nat nat nat

definition is_digit :: "char \<Rightarrow> bool" where
  "is_digit c = (c \<in> set ''0123456789'')"

definition digit_val :: "char \<Rightarrow> nat" where
  "digit_val c = of_char c - 48"

definition is_leap :: "nat \<Rightarrow> bool" where
  "is_leap y = (y mod 4 = 0 \<and> (y mod 100 \<noteq> 0 \<or> y mod 400 = 0))"

definition days_in_month :: "nat \<Rightarrow> nat \<Rightarrow> nat" where
  "days_in_month y m =
     (if m = 2 then (if is_leap y then 29 else 28)
      else if m \<in> set [4, 6, 9, 11] then 30 else 31)"

text \<open>The check of the \<^verbatim>\<open>date\<close> constructor.\<close>

definition valid_date :: "nat \<Rightarrow> nat \<Rightarrow> nat \<Rightarrow> bool" where
  "valid_date y m d =
     (1 \<le> y \<and> y \<le> 9999 \<and> 1 \<le> m \<and> m \<le> 12 \<and> 1 \<le> d \<and> d \<le> days_in_month y m)"

text \<open>
  The directives of \<^verbatim>\<open>strptime\<close> are regular expressions, tried from the left:
  \<^verbatim>\<open>%Y\<close> is four digits, \<^verbatim>\<open>%y\<close> two digits, \<^verbatim>\<open>%m\<close> is
  \<^verbatim>\<open>1[0-2]|0[1-9]|[1-9]\<close> and \<^verbatim>\<open>%d\<close> is \<^verbatim>\<open>3[0-1]|[1-2]\d|0[1-9]|[1-9]| [1-9]\<close>.
  Each matcher returns the number it read and the rest of the input. After a month the
  format wants a slash, and no later alternative can supply one where an earlier
  alternative matched, so the first alternative that matches decides.
\<close>

fun match_Y :: "string \<Rightarrow> (nat \<times> string) option" where
  "match_Y (a # b # c # d # rest) =
     (if is_digit a \<and> is_digit b \<and> is_digit c \<and> is_digit d
      then Some (1000 * digit_val a + 100 * digit_val b + 10 * digit_val c + digit_val d, rest)
      else None)"
| "match_Y _ = None"

fun match_y :: "string \<Rightarrow> (nat \<times> string) option" where
  "match_y (a # b # rest) =
     (if is_digit a \<and> is_digit b then Some (10 * digit_val a + digit_val b, rest) else None)"
| "match_y _ = None"

fun match_m :: "string \<Rightarrow> (nat \<times> string) option" where
  "match_m [] = None"
| "match_m [a] = (if a \<in> set ''123456789'' then Some (digit_val a, []) else None)"
| "match_m (a # b # rest) =
     (if a = CHR ''1'' \<and> b \<in> set ''012'' then Some (10 + digit_val b, rest)
      else if a = CHR ''0'' \<and> b \<in> set ''123456789'' then Some (digit_val b, rest)
      else if a \<in> set ''123456789'' then Some (digit_val a, b # rest)
      else None)"

fun match_d :: "string \<Rightarrow> (nat \<times> string) option" where
  "match_d [] = None"
| "match_d [a] = (if a \<in> set ''123456789'' then Some (digit_val a, []) else None)"
| "match_d (a # b # rest) =
     (if a = CHR ''3'' \<and> b \<in> set ''01'' then Some (30 + digit_val b, rest)
      else if a \<in> set ''12'' \<and> is_digit b then Some (10 * digit_val a + digit_val b, rest)
      else if a = CHR ''0'' \<and> b \<in> set ''123456789'' then Some (digit_val b, rest)
      else if a \<in> set ''123456789'' then Some (digit_val a, b # rest)
      else if a = CHR '' '' \<and> b \<in> set ''123456789'' then Some (digit_val b, rest)
      else None)"

text \<open>The part of both formats after the year: \<^verbatim>\<open>/%m/%d\<close>, then nothing more.\<close>

definition match_md :: "string \<Rightarrow> (nat \<times> nat) option" where
  "match_md s =
     (case s of
        [] \<Rightarrow> None
      | c # s1 \<Rightarrow>
          if c \<noteq> CHR ''/'' then None
          else (case match_m s1 of
                  None \<Rightarrow> None
                | Some (m, s2) \<Rightarrow>
                    (case s2 of
                       [] \<Rightarrow> None
                     | c2 # s3 \<Rightarrow>
                         if c2 \<noteq> CHR ''/'' then None
                         else (case match_d s3 of
                                 None \<Rightarrow> None
                               | Some (d, s4) \<Rightarrow> if s4 = [] then Some (m, d) else None))))"

text \<open>\<^verbatim>\<open>datetime.strptime(s, "%Y/%m/%d")\<close> and \<^verbatim>\<open>datetime.strptime(s, "%y/%m/%d")\<close>;
  \<open>None\<close> is the \<^verbatim>\<open>ValueError\<close>. A year of two digits up to 68 is in the 2000s.\<close>

definition strptime_Y :: "string \<Rightarrow> (nat \<times> nat \<times> nat) option" where
  "strptime_Y s =
     (case match_Y s of
        None \<Rightarrow> None
      | Some (y, s1) \<Rightarrow>
          (case match_md s1 of
             None \<Rightarrow> None
           | Some (m, d) \<Rightarrow> if valid_date y m d then Some (y, m, d) else None))"

definition strptime_y :: "string \<Rightarrow> (nat \<times> nat \<times> nat) option" where
  "strptime_y s =
     (case match_y s of
        None \<Rightarrow> None
      | Some (yy, s1) \<Rightarrow>
          (case match_md s1 of
             None \<Rightarrow> None
           | Some (m, d) \<Rightarrow>
               (let y = (if yy \<le> 68 then 2000 + yy else 1900 + yy)
                in if valid_date y m d then Some (y, m, d) else None)))"

text \<open>
  \<^verbatim>\<open>strftime("%Y-%m-%d")\<close> as the C library of a Linux system prints it: the year in
  decimal with no padding, so that the year 999 prints as \<^verbatim>\<open>999\<close>, and month and
  day on two digits each.
\<close>

definition digit_char :: "nat \<Rightarrow> char" where
  "digit_char n = ''0123456789'' ! (n mod 10)"

fun str_nat :: "nat \<Rightarrow> string" where
  "str_nat n = (if n < 10 then [digit_char n] else str_nat (n div 10) @ [digit_char n])"

declare str_nat.simps [simp del]

definition two_digits :: "nat \<Rightarrow> string" where
  "two_digits n = [digit_char (n div 10), digit_char n]"

definition strftime :: "pydate \<Rightarrow> string" where
  "strftime t =
     (case t of
        Date y m d \<Rightarrow> str_nat y @ ''-'' @ two_digits m @ ''-'' @ two_digits d
      | Datetime y m d \<Rightarrow> str_nat y @ ''-'' @ two_digits m @ ''-'' @ two_digits d)"

subsection \<open>Exceptions, configuration and the object\<close>

datatype exn =
    ValueError string
  | FileNotFoundError string
  | TypeError string
  | RuntimeError string
  | IsADirectoryError
  | FileExistsError
  | LookupError
  | UnicodeEncodeError
  | UnicodeDecodeError
  | PermissionError
  | OSError

text \<open>The configuration mapping: one optional entry for each key that \<^verbatim>\<open>__init__\<close>
  reads; \<open>None\<close> is a key that is not there.\<close>

record config =
  cfg_heideltime_path :: "string option"
  cfg_java_path :: "string option"
  cfg_start_date :: "string option"
  cfg_conf_heideltime :: "string option"
  cfg_doc_type :: "string option"
  cfg_lang :: "string option"
  cfg_output_type :: "string option"
  cfg_encoding :: "string option"
  cfg_verbosity :: "bool option"
  cfg_interval_tagger :: "bool option"
  cfg_locale :: "string option"
  cfg_pos_tagger :: "string option"

text \<open>\<^verbatim>\<open>d.get(key, default)\<close>.\<close>

definition get :: "'a option \<Rightarrow> 'a \<Rightarrow> 'a" where
  "get v dflt = (case v of None \<Rightarrow> dflt | Some x \<Rightarrow> x)"

text \<open>What \<^verbatim>\<open>__init__\<close> may be given: a mapping, the name of a JSON file, or
  something else.\<close>

datatype source = Mapping config | FilePath string | Other

text \<open>The attributes of a \<^verbatim>\<open>HeidelTime\<close> object (\<open>locale'\<close> is the attribute
  \<^verbatim>\<open>locale\<close>).\<close>

record heideltime =
  heidel :: path
  java :: string
  start_date :: pydate
  conf_heideltime :: path
  doc_type :: string
  lang :: string
  output_type :: string
  encoding :: string
  verbosity :: bool
  interval_tagger :: bool
  locale' :: "string option"
  pos_tagger :: string

subsection \<open>The surroundings\<close>

text \<open>
  A codec of the Python library, with failure as \<open>None\<close>. What a child process did:
  it ended with a return code and its two streams, or it could not be started.
\<close>

record codec =
  encode :: "string \<Rightarrow> bytes option"
  decode :: "bytes \<Rightarrow> string option"

datatype node = File bytes | Dir

datatype completed = Exited int bytes bytes | NotStarted

text \<open>
  The disk maps the names that reach the operating system to what they hold; \<open>spawned\<close>
  lists the command lines handed to \<^verbatim>\<open>subprocess\<close> so far.
\<close>

record world =
  files :: "string \<rightharpoonup> node"
  spawned :: "string list list"

text \<open>
  What the library and the machine decide: the working directory, today's date, the
  directory and the candidate names of \<^verbatim>\<open>tempfile\<close>, the codec registry, the JSON
  reader (\<open>Inl\<close> is a \<^verbatim>\<open>JSONDecodeError\<close> with its text), the child process as a
  function of its command line and the disk, the text of a
  \<^verbatim>\<open>CalledProcessError\<close>, and whether the operating system lets the process remove
  a file of a given name from a given disk.
\<close>

record env =
  getcwd :: string
  today :: "nat \<times> nat \<times> nat"
  gettempdir :: string
  temp_names :: "string list"
  lookup_codec :: "string \<Rightarrow> codec option"
  json_load :: "bytes \<Rightarrow> string + config"
  run :: "string list \<Rightarrow> (string \<rightharpoonup> node) \<Rightarrow> completed \<times> (string \<rightharpoonup> node)"
  str_called_process_error :: "string list \<Rightarrow> int \<Rightarrow> string"
  unlink_permitted :: "(string \<rightharpoonup> node) \<Rightarrow> string \<Rightarrow> bool"

text \<open>\<^verbatim>\<open>p.exists()\<close>.\<close>

definition exists_path :: "world \<Rightarrow> path \<Rightarrow> bool" where
  "exists_path w p = (files w (str_path p) \<noteq> None)"

subsection \<open>The setters\<close>

text \<open>A setter returns what it raised, or \<open>Inr ()\<close>, together with the object as it
  is afterwards.\<close>

definition set_time :: "heideltime \<Rightarrow> string \<Rightarrow> (exn + unit) \<times> heideltime" where
  "set_time h doc_time =
     (case strptime_Y doc_time of
        Some (y, m, d) \<Rightarrow> (Inr (), h\<lparr>start_date := Datetime y m d\<rparr>)
      | None \<Rightarrow>
          (case strptime_y doc_time of
             Some (y, m, d) \<Rightarrow> (Inr (), h\<lparr>start_date := Datetime y m d\<rparr>)
           | None \<Rightarrow>
               (Inl (ValueError (''doc_time must be in format 'YYYY/MM/DD or YY/MM/DD'' @ [CHR 0x27])),
                h)))"

definition set_lang :: "heideltime \<Rightarrow> string \<Rightarrow> (exn + unit) \<times> heideltime" where
  "set_lang h l =
     (if \<not> lower l \<in> set AVAILABLE_LANGUAGES
      then (Inl (ValueError (''Languague: '' @ [CHR 0x22] @ '' '' @ l @ '' '' @ [CHR 0x22]
                   @ ''is not supported in heideltime''
                   @ ''Please chose one of the supported languagues:'' @ [CHR 0x0A] @ '' ''
                   @ repr_list AVAILABLE_LANGUAGES)), h)
      else (Inr (), h\<lparr>lang := lower l\<rparr>))"

definition set_type :: "heideltime \<Rightarrow> string \<Rightarrow> (exn + unit) \<times> heideltime" where
  "set_type h t =
     (if \<not> lower t \<in> set AVAILABLE_DOCUMENT_TYPES
      then (Inl (ValueError (''Document type: '' @ [CHR 0x22] @ t @ [CHR 0x22]
                   @ '' is not specified !''
                   @ ''Please select one of those documents type:'' @ [CHR 0x0A]
                   @ repr_list AVAILABLE_DOCUMENT_TYPES)), h)
      else (Inr (), h\<lparr>doc_type := t\<rparr>))"

definition out_type :: "heideltime \<Rightarrow> string \<Rightarrow> (exn + unit) \<times> heideltime" where
  "out_type h o_type =
     (if \<not> lower o_type \<in> set AVAILABLE_OUTPUT_TYPES
      then (Inl (ValueError (''output type: '' @ o_type @ '' is not specified !''
                   @ ''Please select one of those output type'' @ [CHR 0x0A]
                   @ repr_list AVAILABLE_OUTPUT_TYPES)), h)
      else (Inr (), h\<lparr>output_type := o_type\<rparr>))"

definition set_encod :: "heideltime \<Rightarrow> string \<Rightarrow> heideltime" where
  "set_encod h encod = h\<lparr>encoding := encod\<rparr>"

definition set_config :: "heideltime \<Rightarrow> string \<Rightarrow> bool \<Rightarrow> heideltime" where
  "set_config h conf_path abs' =
     (if \<not> abs' then h\<lparr>conf_heideltime := path_join (heidel h) conf_path\<rparr>
      else h\<lparr>conf_heideltime := Path conf_path\<rparr>)"

definition set_verbosity :: "heideltime \<Rightarrow> bool \<Rightarrow> heideltime" where
  "set_verbosity h v = h\<lparr>verbosity := v\<rparr>"

definition set_interval_tagger :: "heideltime \<Rightarrow> bool \<Rightarrow> heideltime" where
  "set_interval_tagger h v = h\<lparr>interval_tagger := v\<rparr>"

definition set_locale :: "heideltime \<Rightarrow> string \<Rightarrow> heideltime" where
  "set_locale h l = h\<lparr>locale' := Some l\<rparr>"

definition set_pos_tagger :: "heideltime \<Rightarrow> string \<Rightarrow> heideltime" where
  "set_pos_tagger h p = h\<lparr>pos_tagger := p\<rparr>"

subsection \<open>Initialisation\<close>

text \<open>
  \<^verbatim>\<open>_loadconfig\<close>. The test \<^verbatim>\<open>config is {}\<close> compares with a fresh object and is
  never true; a mapping is returned by the branch after it. Reading the file and decoding
  its text are part of \<open>json_load\<close>.
\<close>

definition loadconfig :: "env \<Rightarrow> world \<Rightarrow> source \<Rightarrow> exn + config" where
  "loadconfig e w src =
     (case src of
        Mapping c \<Rightarrow> Inr c
      | FilePath s \<Rightarrow>
          (let config_path = Path s in
           if \<not> exists_path w config_path
           then Inl (FileNotFoundError (''Configuration File for the wrapper is not found : ''
                       @ str_path config_path @ ''!''))
           else (case files w (str_path config_path) of
                   Some (File content) \<Rightarrow>
                     (case json_load e content of
                        Inl msg \<Rightarrow> Inl (ValueError (''Invalid JSON configuration file: '' @ msg))
                      | Inr c \<Rightarrow> Inr c)
                 | _ \<Rightarrow> Inl IsADirectoryError))
      | Other \<Rightarrow>
          Inl (TypeError
                 ''Configuration must be a dictionary, path string, or path Path object !!''))"

text \<open>The start date of \<^verbatim>\<open>__init__\<close>: an entry that is there and not empty is
  parsed, with the four-digit year first; otherwise the date is today's.\<close>

definition init_start_date :: "env \<Rightarrow> string option \<Rightarrow> exn + pydate" where
  "init_start_date e start_date_str =
     (if start_date_str \<noteq> None \<and> start_date_str \<noteq> Some []
      then (case strptime_Y (the start_date_str) of
              Some (y, m, d) \<Rightarrow> Inr (Date y m d)
            | None \<Rightarrow>
                (case strptime_y (the start_date_str) of
                   Some (y, m, d) \<Rightarrow> Inr (Date y m d)
                 | None \<Rightarrow>
                     Inl (ValueError
                            (''start_date must be in format 'YYYY/MM/DD or YY/MM/DD''
                             @ [CHR 0x27]))))
      else (case today e of (y, m, d) \<Rightarrow> Inr (Date y m d)))"

text \<open>\<^verbatim>\<open>__init__\<close>. The three checked attributes are assigned from the mapping and
  then set again through their setters, as in the source.\<close>

definition init :: "env \<Rightarrow> world \<Rightarrow> source \<Rightarrow> exn + heideltime" where
  "init e w src =
     (case loadconfig e w src of
        Inl err \<Rightarrow> Inl err
      | Inr config \<Rightarrow>
          (case cfg_heideltime_path config of
             None \<Rightarrow>
               Inl (ValueError
                 ''Please specify the path to Heideltime.standalone.jar in the configuration'')
           | Some heideltime_path \<Rightarrow>
               if \<not> exists_path w (Path heideltime_path)
               then Inl (FileNotFoundError (''HeidelTime jar file is not found at ''
                           @ str_path (Path heideltime_path)))
               else
                 (case init_start_date e (cfg_start_date config) of
                    Inl err \<Rightarrow> Inl err
                  | Inr start \<Rightarrow>
                      (let h = \<lparr>heidel = Path heideltime_path,
                                java = get (cfg_java_path config) ''java'',
                                start_date = start,
                                conf_heideltime =
                                  (case cfg_conf_heideltime config of
                                     None \<Rightarrow> path_join (Path heideltime_path) ''config.props''
                                   | Some c \<Rightarrow> Path c),
                                doc_type = get (cfg_doc_type config) ''narratives'',
                                lang = get (cfg_lang config) ''french'',
                                output_type = get (cfg_output_type config) ''TIMEML'',
                                encoding = get (cfg_encoding config) ''UTF-8'',
                                verbosity = get (cfg_verbosity config) False,
                                interval_tagger = get (cfg_interval_tagger config) False,
                                locale' = cfg_locale config,
                                pos_tagger = get (cfg_pos_tagger config) ''no''\<rparr>
                       in case set_type h (doc_type h) of
                            (Inl err, _) \<Rightarrow> Inl err
                          | (Inr _, h1) \<Rightarrow>
                              (case set_lang h1 (lang h1) of
                                 (Inl err, _) \<Rightarrow> Inl err
                               | (Inr _, h2) \<Rightarrow>
                                   (case out_type h2 (output_type h2) of
                                      (Inl err, _) \<Rightarrow> Inl err
                                    | (Inr _, h3) \<Rightarrow> Inr h3))))))"

subsection \<open>Parsing a document\<close>

text \<open>
  The command line that \<^verbatim>\<open>parse\<close> builds for the temporary file \<open>tmp_file_path\<close>.
  The settings file is put into the list as a path object, which \<^verbatim>\<open>subprocess\<close>
  turns into its string.
\<close>

definition command :: "env \<Rightarrow> heideltime \<Rightarrow> string \<Rightarrow> string list" where
  "command e h tmp_file_path =
     (let jar_path = path_join (heidel h) ''de.unihd.dbs.heideltime.standalone.jar'' in
      [java h,
       ''-jar'', str_path (absolute (getcwd e) jar_path),
       tmp_file_path,
       ''-l'', lang h,
       ''-t'', doc_type h,
       ''-o'', output_type h,
       ''-c'', str_path (conf_heideltime h),
       ''-e'', encoding h,
       ''-dct'', strftime (start_date h)]
      @ (if verbosity h then [''-v''] else [])
      @ (if interval_tagger h then [''-it''] else [])
      @ (if locale' h \<noteq> None \<and> locale' h \<noteq> Some [] then [''-locale'', the (locale' h)] else [])
      @ (if pos_tagger h \<noteq> [] then [''-pos'', pos_tagger h] else []))"

text \<open>
  \<^verbatim>\<open>tempfile.NamedTemporaryFile\<close> takes the first candidate name that is not on the
  disk yet, in the temporary directory, between the prefix and the suffix it was given.
\<close>

definition temp_path :: "env \<Rightarrow> string \<Rightarrow> string" where
  "temp_path e name =
     (if gettempdir e = [] \<or> last (gettempdir e) = CHR ''/''
      then gettempdir e @ ''heideltime_'' @ name @ ''.tmp''
      else gettempdir e @ ''/'' @ ''heideltime_'' @ name @ ''.tmp'')"

definition mkstemp :: "env \<Rightarrow> (string \<rightharpoonup> node) \<Rightarrow> string option" where
  "mkstemp e fs = find (\<lambda>p. fs p = None) (map (temp_path e) (temp_names e))"

text \<open>
  \<^verbatim>\<open>Path(p).unlink(missing_ok=True)\<close>: a name that is not on the disk is no error, a
  directory is not removed and raises \<^verbatim>\<open>IsADirectoryError\<close>, and a file that the
  operating system does not let the process remove raises \<^verbatim>\<open>PermissionError\<close>.
  \<open>unlink\<close> returns what it raised, if anything, and the world afterwards.
\<close>

definition unlink_error :: "env \<Rightarrow> (string \<rightharpoonup> node) \<Rightarrow> string \<Rightarrow> exn option" where
  "unlink_error e fs p =
     (case fs p of
        None \<Rightarrow> None
      | Some Dir \<Rightarrow> Some IsADirectoryError
      | Some (File content) \<Rightarrow>
          if unlink_permitted e fs p then None else Some PermissionError)"

definition unlink :: "env \<Rightarrow> string \<Rightarrow> world \<Rightarrow> exn option \<times> world" where
  "unlink e p w =
     (case unlink_error e (files w) p of
        None \<Rightarrow> (None, w\<lparr>files := (files w)(p := None)\<rparr>)
      | Some err \<Rightarrow> (Some err, w))"

text \<open>
  The inner \<^verbatim>\<open>try\<close> of \<^verbatim>\<open>parse\<close>: \<^verbatim>\<open>subprocess.check_output\<close> and what is made
  of its outcome. A return code other than zero is a \<^verbatim>\<open>CalledProcessError\<close>, whose
  handler decodes the error stream when it is not empty.
\<close>

definition run_tagger ::
  "env \<Rightarrow> heideltime \<Rightarrow> codec \<Rightarrow> world \<Rightarrow> string \<Rightarrow> (exn + string) \<times> world" where
  "run_tagger e h cd w tmp_file_path =
     (let cmd = command e h tmp_file_path;
          w' = \<lparr>files = snd (run e cmd (files w)), spawned = spawned w @ [cmd]\<rparr>
      in case fst (run e cmd (files w)) of
           NotStarted \<Rightarrow> (Inl OSError, w')
         | Exited returncode out err \<Rightarrow>
             if returncode = 0
             then (case decode cd out of
                     None \<Rightarrow> (Inl UnicodeDecodeError, w')
                   | Some result \<Rightarrow> (Inr result, w'))
             else if err \<noteq> []
             then (case decode cd err of
                     None \<Rightarrow> (Inl UnicodeDecodeError, w')
                   | Some error_msg \<Rightarrow>
                       (Inl (RuntimeError (''HeidelTime execution failed: '' @ error_msg)), w'))
             else (Inl (RuntimeError (''HeidelTime execution failed: ''
                          @ str_called_process_error e cmd returncode)), w'))"

text \<open>
  \<^verbatim>\<open>parse\<close>. The file is made and written inside the \<^verbatim>\<open>with\<close> block, which comes
  before the \<^verbatim>\<open>try\<close>; the \<^verbatim>\<open>finally\<close> clause removes the file after whatever
  happened inside the \<^verbatim>\<open>try\<close>, and an exception that the removal raises takes the
  place of the value or the exception that the \<^verbatim>\<open>try\<close> had ended with. A codec that
  is not known makes \<^verbatim>\<open>NamedTemporaryFile\<close> remove the file it had just made; a text
  that the codec cannot encode makes \<^verbatim>\<open>write\<close> raise, and the block closes the file,
  which had been asked for with \<^verbatim>\<open>delete=False\<close>.
\<close>

definition parse :: "env \<Rightarrow> heideltime \<Rightarrow> world \<Rightarrow> string \<Rightarrow> (exn + string) \<times> world" where
  "parse e h w doc =
     (if doc = [] then (Inl (ValueError ''No text provided to parse''), w)
      else
        (case mkstemp e (files w) of
           None \<Rightarrow> (Inl FileExistsError, w)
         | Some tmp_file_path \<Rightarrow>
             (case lookup_codec e (encoding h) of
                None \<Rightarrow>
                  (let u = unlink e tmp_file_path
                             (w\<lparr>files := (files w)(tmp_file_path \<mapsto> File [])\<rparr>)
                   in (case fst u of None \<Rightarrow> Inl LookupError | Some err \<Rightarrow> Inl err, snd u))
              | Some cd \<Rightarrow>
                  (case encode cd doc of
                     None \<Rightarrow>
                       (Inl UnicodeEncodeError,
                        w\<lparr>files := (files w)(tmp_file_path \<mapsto> File [])\<rparr>)
                   | Some content \<Rightarrow>
                       (let w1 = w\<lparr>files := (files w)(tmp_file_path \<mapsto> File content)\<rparr>;
                            r = run_tagger e h cd w1 tmp_file_path;
                            u = unlink e tmp_file_path (snd r)
                        in (case fst u of None \<Rightarrow> fst r | Some err \<Rightarrow> Inl err, snd u))))))"

subsection \<open>A small machine for running the definitions\<close>

text \<open>
  Two codecs as Python has them on code points below 256: \<^verbatim>\<open>ascii\<close> refuses
  everything from 128 on, in both directions, and \<^verbatim>\<open>latin-1\<close> maps every code point
  to the byte of the same number.
\<close>

definition is_ascii :: "string \<Rightarrow> bool" where
  "is_ascii s = list_all (\<lambda>c. (of_char c :: nat) < 128) s"

definition ascii_codec :: codec where
  "ascii_codec =
     \<lparr>encode = (\<lambda>s. if is_ascii s then Some s else None),
      decode = (\<lambda>b. if is_ascii b then Some b else None)\<rparr>"

definition latin1_codec :: codec where
  "latin1_codec = \<lparr>encode = (\<lambda>s. Some s), decode = (\<lambda>b. Some b)\<rparr>"

definition codecs :: "string \<Rightarrow> codec option" where
  "codecs name =
     (if lower name = ''ascii'' then Some ascii_codec
      else if lower name = ''latin-1'' then Some latin1_codec
      else None)"

text \<open>
  A machine whose tagger is installed under \<^verbatim>\<open>/opt/heideltime\<close>. The child process
  is a parameter: it is given as the function of command line and disk that \<open>run\<close> wants.
\<close>

definition machine ::
  "(string list \<Rightarrow> (string \<rightharpoonup> node) \<Rightarrow> completed \<times> (string \<rightharpoonup> node)) \<Rightarrow> env" where
  "machine child =
     \<lparr>getcwd = ''/home/user'',
      today = (2026, 1, 15),
      gettempdir = ''/tmp'',
      temp_names = [''a1b2c3d4'', ''e5f6g7h8''],
      lookup_codec = codecs,
      json_load = (\<lambda>b. Inl ''Expecting value''),
      run = child,
      str_called_process_error = (\<lambda>cmd rc. ''the command returned a non-zero exit status''),
      unlink_permitted = (\<lambda>fs p. True)\<rparr>"

definition disk :: world where
  "disk = \<lparr>files = [''/opt/heideltime'' \<mapsto> Dir, ''/tmp'' \<mapsto> Dir], spawned = []\<rparr>"

text \<open>Children that end with a given return code and given streams and leave the disk
  alone.\<close>

definition child_exits ::
  "int \<Rightarrow> bytes \<Rightarrow> bytes \<Rightarrow> string list \<Rightarrow> (string \<rightharpoonup> node) \<Rightarrow> completed \<times> (string \<rightharpoonup> node)" where
  "child_exits rc out err cmd fs = (Exited rc out err, fs)"


text \<open>The mapping with no entry, and the one that names the tagger and nothing else.\<close>

definition empty_config :: config where
  "empty_config =
     \<lparr>cfg_heideltime_path = None, cfg_java_path = None, cfg_start_date = None,
      cfg_conf_heideltime = None, cfg_doc_type = None, cfg_lang = None,
      cfg_output_type = None, cfg_encoding = None, cfg_verbosity = None,
      cfg_interval_tagger = None, cfg_locale = None, cfg_pos_tagger = None\<rparr>"

definition default_config :: config where
  "default_config = empty_config\<lparr>cfg_heideltime_path := Some ''/opt/heideltime''\<rparr>"

text \<open>The object that \<^verbatim>\<open>__init__\<close> builds from \<open>default_config\<close> on the 15th of
  January 2026.\<close>

definition default_object :: heideltime where
  "default_object =
     \<lparr>heidel = PurePath ''/'' [''opt'', ''heideltime''],
      java = ''java'',
      start_date = Date 2026 1 15,
      conf_heideltime = PurePath ''/'' [''opt'', ''heideltime'', ''config.props''],
      doc_type = ''narratives'',
      lang = ''french'',
      output_type = ''TIMEML'',
      encoding = ''UTF-8'',
      verbosity = False,
      interval_tagger = False,
      locale' = None,
      pos_tagger = ''no''\<rparr>"

section \<open>Properties\<close>

subsection \<open>Auxiliary facts\<close>

lemma join_append:
  "xs \<noteq> [] \<Longrightarrow> ys \<noteq> [] \<Longrightarrow> join s (xs @ ys) = join s xs @ s @ join s ys"
proof (induction s xs rule: join.induct)
  case (1 sep)
  then show ?case by simp
next
  case (2 sep x)
  then show ?case by (cases ys) simp_all
next
  case (3 sep x y ys)
  then show ?case by simp
qed

lemma root_Path: "root (Path p) = [] \<longleftrightarrow> take 1 p \<noteq> ''/''"
  by (simp add: Path_def splitroot_def)

lemma jar_name_Path:
  "Path ''de.unihd.dbs.heideltime.standalone.jar''
     = PurePath [] [''de.unihd.dbs.heideltime.standalone.jar'']"
  by code_simp


lemma codecs_known:
  "codecs ''ascii'' = Some ascii_codec" "codecs ''latin-1'' = Some latin1_codec"
proof -
  have "lower ''ascii'' = ''ascii''" and "lower ''latin-1'' = ''latin-1''" by code_simp+
  then show "codecs ''ascii'' = Some ascii_codec" "codecs ''latin-1'' = Some latin1_codec"
    by (simp_all add: codecs_def)
qed



lemma is_digit_digit_char: "is_digit (digit_char n)"
  unfolding is_digit_def digit_char_def by (rule nth_mem) simp

lemma str_nat_four_digits:
  assumes "1000 \<le> y" and "y \<le> 9999"
  shows "str_nat y
     = [digit_char (y div 1000), digit_char (y div 100), digit_char (y div 10), digit_char y]"
proof -
  have a: "str_nat y = str_nat (y div 10) @ [digit_char y]"
    using assms by (subst str_nat.simps) simp
  have b: "str_nat (y div 10) = str_nat (y div 100) @ [digit_char (y div 10)]"
    using assms by (subst str_nat.simps) (simp add: div_mult2_eq [symmetric])
  have c: "str_nat (y div 100) = str_nat (y div 1000) @ [digit_char (y div 100)]"
    using assms by (subst str_nat.simps) (simp add: div_mult2_eq [symmetric])
  have d: "str_nat (y div 1000) = [digit_char (y div 1000)]"
    using assms by (subst str_nat.simps) simp
  show ?thesis by (simp add: a b c d)
qed

lemma strftime_parts:
  "strftime (Date y m d) = str_nat y @ ''-'' @ two_digits m @ ''-'' @ two_digits d"
  "strftime (Datetime y m d) = str_nat y @ ''-'' @ two_digits m @ ''-'' @ two_digits d"
  by (simp_all add: strftime_def)

lemma strftime_shape:
  assumes "t = Date y m d \<or> t = Datetime y m d" and "1000 \<le> y" and "y \<le> 9999"
  shows "length (strftime t) = 10 \<and> strftime t ! 4 = CHR ''-'' \<and> strftime t ! 7 = CHR ''-''
   \<and> list_all is_digit (take 4 (strftime t) @ take 2 (drop 5 (strftime t)) @ drop 8 (strftime t))"
  using assms
  by (auto simp: strftime_parts str_nat_four_digits two_digits_def is_digit_digit_char)

text \<open>The command line: its sixteen fixed entries, the entries that depend on a setting,
  and the positions that later statements look at.\<close>

lemma take_command:
  "take 16 (command e h tmp) =
     [java h, ''-jar'',
      str_path (absolute (getcwd e)
                  (path_join (heidel h) ''de.unihd.dbs.heideltime.standalone.jar'')),
      tmp, ''-l'', lang h, ''-t'', doc_type h, ''-o'', output_type h,
      ''-c'', str_path (conf_heideltime h), ''-e'', encoding h,
      ''-dct'', strftime (start_date h)]"
  by (simp add: command_def Let_def)

lemma drop_command:
  "drop 16 (command e h tmp) =
      (if verbosity h then [''-v''] else [])
    @ (if interval_tagger h then [''-it''] else [])
    @ (case locale' h of None \<Rightarrow> [] | Some l \<Rightarrow> if l = [] then [] else [''-locale'', l])
    @ (if pos_tagger h = [] then [] else [''-pos'', pos_tagger h])"
  by (simp add: command_def Let_def split: option.splits)

lemma command_nths:
  "command e h t ! 5 = lang h" "command e h t ! 7 = doc_type h"
  "command e h t ! 9 = output_type h" "command e h t ! 15 = strftime (start_date h)"
  by (simp_all add: command_def Let_def)

text \<open>What \<^verbatim>\<open>__init__\<close> leaves in the object when it returns one.\<close>

lemma init_default: "init (machine c) disk (Mapping default_config) = Inr default_object"
  by code_simp

lemma init_fields:
  assumes "init e w src = Inr h" and "loadconfig e w src = Inr c"
  shows "verbosity h = get (cfg_verbosity c) False"
    and "interval_tagger h = get (cfg_interval_tagger c) False"
    and "locale' h = cfg_locale c"
    and "pos_tagger h = get (cfg_pos_tagger c) ''no''"
  using assms
  by (auto simp: init_def Let_def set_type_def set_lang_def out_type_def
      split: sum.splits option.splits if_splits)



text \<open>A call of \<^verbatim>\<open>parse\<close> that got its text into the file runs the tagger once and
  then removes the file, unless the removal itself raises.\<close>

lemma run_tagger_spawned:
  "spawned (snd (run_tagger e h cd w tmp)) = spawned w @ [command e h tmp]"
  by (simp add: run_tagger_def Let_def split: completed.splits option.splits)

lemma run_tagger_files:
  "files (snd (run_tagger e h cd w tmp)) = snd (run e (command e h tmp) (files w))"
  by (simp add: run_tagger_def Let_def split: completed.splits option.splits)

lemma unlink_spawned: "spawned (snd (unlink e p w)) = spawned w"
  by (simp add: unlink_def split: option.splits)


lemma parse_reached:
  assumes "doc \<noteq> []" and "mkstemp e (files w) = Some tmp"
    and "lookup_codec e (encoding h) = Some cd" and "encode cd doc = Some content"
  shows "parse e h w doc =
     (case fst (unlink e tmp
                  (snd (run_tagger e h cd (w\<lparr>files := (files w)(tmp \<mapsto> File content)\<rparr>) tmp))) of
        None \<Rightarrow> fst (run_tagger e h cd (w\<lparr>files := (files w)(tmp \<mapsto> File content)\<rparr>) tmp)
      | Some err \<Rightarrow> Inl err,
      snd (unlink e tmp
             (snd (run_tagger e h cd (w\<lparr>files := (files w)(tmp \<mapsto> File content)\<rparr>) tmp))))"
  using assms by (simp add: parse_def Let_def)

lemma parse_unlinks_after_write:
  assumes "doc \<noteq> []" and "mkstemp e (files w) = Some tmp"
    and "lookup_codec e (encoding h) = Some cd" and "encode cd doc = Some content"
    and "unlink_error e (snd (run e (command e h tmp) ((files w)(tmp \<mapsto> File content)))) tmp
           = None"
  shows "files (snd (parse e h w doc)) tmp = None"
  using assms by (simp add: parse_reached unlink_def run_tagger_files)

subsection \<open>What \<^verbatim>\<open>parse\<close> returns\<close>





subsection \<open>The temporary file\<close>

text \<open>
  Claim C2 wants the temporary file gone whenever \<^verbatim>\<open>parse\<close> returns or raises on a
  text that is not empty. The lemma \<open>parse_unlinks_after_write\<close> above shows that for
  every call that got its text written and whose removal of the file did not itself raise.
  The call below does not get that far: the object was made with
  the encoding \<^verbatim>\<open>ascii\<close>, the text is the single letter U+00E9, and \<^verbatim>\<open>write\<close>
  raises \<^verbatim>\<open>UnicodeEncodeError\<close> inside the \<^verbatim>\<open>with\<close> block. The \<^verbatim>\<open>try\<close> whose
  \<^verbatim>\<open>finally\<close> clause removes the file has not been entered yet, so the file, which was
  not there before the call, is there after it, empty.
\<close>

theorem parse_write_failure_keeps_file:
  "init (machine (child_exits 0 [] [])) disk
        (Mapping (default_config\<lparr>cfg_encoding := Some ''ascii''\<rparr>))
     = Inr (default_object\<lparr>encoding := ''ascii''\<rparr>)
 \<and> files disk ''/tmp/heideltime_a1b2c3d4.tmp'' = None
 \<and> fst (parse (machine (child_exits 0 [] [])) (default_object\<lparr>encoding := ''ascii''\<rparr>)
          disk [CHR 0xE9]) = Inl UnicodeEncodeError
 \<and> files (snd (parse (machine (child_exits 0 [] [])) (default_object\<lparr>encoding := ''ascii''\<rparr>)
                  disk [CHR 0xE9])) ''/tmp/heideltime_a1b2c3d4.tmp'' = Some (File [])"
  by code_simp

subsection \<open>The command line\<close>

text \<open>
  Claim C3, as the code has it. After the sixteen fixed entries the command line holds
  \<^verbatim>\<open>-v\<close> when the verbosity is true, \<^verbatim>\<open>-it\<close> when the interval tagger is true,
  \<^verbatim>\<open>-locale\<close> and its value when a locale is set and is not the empty string, and
  \<^verbatim>\<open>-pos\<close> and its value when the name of the second tagger is not the empty string,
  in this order and nothing else. For an object fresh from \<^verbatim>\<open>__init__\<close> this reads in
  terms of the mapping: a mapping without the key \<^verbatim>\<open>pos_tagger\<close> gives the name
  \<^verbatim>\<open>no\<close>, which is not empty, so \<^verbatim>\<open>-pos no\<close> is on the command line.
\<close>

theorem optional_flags:
  "drop 16 (command e h tmp) =
      (if verbosity h then [''-v''] else [])
    @ (if interval_tagger h then [''-it''] else [])
    @ (case locale' h of None \<Rightarrow> [] | Some l \<Rightarrow> if l = [] then [] else [''-locale'', l])
    @ (if pos_tagger h = [] then [] else [''-pos'', pos_tagger h])
 \<and> (loadconfig e w src = Inr c \<and> init e w src = Inr h' \<longrightarrow>
      drop 16 (command e h' tmp) =
          (if cfg_verbosity c = Some True then [''-v''] else [])
        @ (if cfg_interval_tagger c = Some True then [''-it''] else [])
        @ (case cfg_locale c of None \<Rightarrow> [] | Some l \<Rightarrow> if l = [] then [] else [''-locale'', l])
        @ (case cfg_pos_tagger c of
             None \<Rightarrow> [''-pos'', ''no'']
           | Some p \<Rightarrow> if p = [] then [] else [''-pos'', p]))"
proof (intro conjI impI)
  show "drop 16 (command e h tmp) =
      (if verbosity h then [''-v''] else [])
    @ (if interval_tagger h then [''-it''] else [])
    @ (case locale' h of None \<Rightarrow> [] | Some l \<Rightarrow> if l = [] then [] else [''-locale'', l])
    @ (if pos_tagger h = [] then [] else [''-pos'', pos_tagger h])"
    by (rule drop_command)
next
  assume a: "loadconfig e w src = Inr c \<and> init e w src = Inr h'"
  then have f: "verbosity h' = get (cfg_verbosity c) False"
    "interval_tagger h' = get (cfg_interval_tagger c) False"
    "locale' h' = cfg_locale c"
    "pos_tagger h' = get (cfg_pos_tagger c) ''no''"
    by (simp_all add: init_fields [of e w src h' c])
  show "drop 16 (command e h' tmp) =
          (if cfg_verbosity c = Some True then [''-v''] else [])
        @ (if cfg_interval_tagger c = Some True then [''-it''] else [])
        @ (case cfg_locale c of None \<Rightarrow> [] | Some l \<Rightarrow> if l = [] then [] else [''-locale'', l])
        @ (case cfg_pos_tagger c of
             None \<Rightarrow> [''-pos'', ''no'']
           | Some p \<Rightarrow> if p = [] then [] else [''-pos'', p])"
    unfolding drop_command f by (simp add: get_def split: option.splits)
qed

text \<open>The mapping that names only the tagger, and an object with every optional
  setting switched on.\<close>

theorem optional_flags_witness:
  "loadconfig (machine (child_exits 0 [] [])) disk (Mapping default_config) = Inr default_config
 \<and> init (machine (child_exits 0 [] [])) disk (Mapping default_config) = Inr default_object
 \<and> drop 16 (command (machine (child_exits 0 [] [])) default_object ''/tmp/f'')
      = [''-pos'', ''no'']
 \<and> drop 16 (command (machine (child_exits 0 [] []))
      (default_object\<lparr>verbosity := True, interval_tagger := True, locale' := Some ''fr_FR'',
                       pos_tagger := ''TREETAGGER''\<rparr>) ''/tmp/f'')
      = [''-v'', ''-it'', ''-locale'', ''fr_FR'', ''-pos'', ''TREETAGGER'']"
proof -
  let ?m = "machine (child_exits 0 [] [])"
  let ?h = "default_object\<lparr>verbosity := True, interval_tagger := True,
              locale' := Some ''fr_FR'', pos_tagger := ''TREETAGGER''\<rparr>"
  have a: "loadconfig ?m disk (Mapping default_config) = Inr default_config"
    by (simp add: loadconfig_def)
  have b: "init ?m disk (Mapping default_config) = Inr default_object" by (rule init_default)
  have c: "cfg_verbosity default_config = None" "cfg_interval_tagger default_config = None"
    "cfg_locale default_config = None" "cfg_pos_tagger default_config = None"
    by (simp_all add: default_config_def empty_config_def)
  note t = optional_flags [of ?m ?h "''/tmp/f''" disk "Mapping default_config" default_config
      default_object]
  from t a b
  have "drop 16 (command ?m default_object ''/tmp/f'') =
          (if cfg_verbosity default_config = Some True then [''-v''] else [])
        @ (if cfg_interval_tagger default_config = Some True then [''-it''] else [])
        @ (case cfg_locale default_config of None \<Rightarrow> []
           | Some l \<Rightarrow> if l = [] then [] else [''-locale'', l])
        @ (case cfg_pos_tagger default_config of
             None \<Rightarrow> [''-pos'', ''no'']
           | Some p \<Rightarrow> if p = [] then [] else [''-pos'', p])"
    by blast
  then have 1: "drop 16 (command ?m default_object ''/tmp/f'') = [''-pos'', ''no'']"
    by (simp add: c)
  from t have "drop 16 (command ?m ?h ''/tmp/f'') =
      (if verbosity ?h then [''-v''] else [])
    @ (if interval_tagger ?h then [''-it''] else [])
    @ (case locale' ?h of None \<Rightarrow> [] | Some l \<Rightarrow> if l = [] then [] else [''-locale'', l])
    @ (if pos_tagger ?h = [] then [] else [''-pos'', pos_tagger ?h])"
    by blast
  then have 2: "drop 16 (command ?m ?h ''/tmp/f'')
      = [''-v'', ''-it'', ''-locale'', ''fr_FR'', ''-pos'', ''TREETAGGER'']"
    by simp
  from a b 1 2 show ?thesis by blast
qed

text \<open>
  Claim C3 as it is worded has none of the four flags on the command line of the default
  configuration. The object that \<^verbatim>\<open>__init__\<close> makes from the mapping that names only
  the tagger has \<^verbatim>\<open>-pos no\<close> there.
\<close>

theorem default_command_flags_counterexample:
  "init (machine (child_exits 0 [] [])) disk (Mapping default_config) = Inr default_object
 \<and> ''-pos'' \<in> set (command (machine (child_exits 0 [] [])) default_object
                      ''/tmp/heideltime_a1b2c3d4.tmp'')
 \<and> drop 16 (command (machine (child_exits 0 [] [])) default_object
              ''/tmp/heideltime_a1b2c3d4.tmp'') = [''-pos'', ''no'']"
  by code_simp

text \<open>
  Claim C4, as the code has it. The command line starts with the Java runtime, then
  \<^verbatim>\<open>-jar\<close>, then the absolute path of the file
  \<^verbatim>\<open>de.unihd.dbs.heideltime.standalone.jar\<close> joined to the configured tool path, then the
  temporary file, then \<^verbatim>\<open>-l\<close>, \<^verbatim>\<open>-t\<close>, \<^verbatim>\<open>-o\<close>, \<^verbatim>\<open>-c\<close>,
  \<^verbatim>\<open>-e\<close> and \<^verbatim>\<open>-dct\<close>, each followed by its value, in this order and before any
  other entry. For an absolute tool path with at least one component the third entry is
  the tool path, a slash and the name of the jar. The value of \<^verbatim>\<open>-dct\<close> is the year of
  the stored date in decimal, a dash, the month on two digits, a dash and the day on two
  digits; for a year from 1000 on that is four digits, a dash, two digits, a dash, two
  digits, and a smaller year has fewer digits. A call of \<^verbatim>\<open>parse\<close> that got its text
  written hands exactly this command line to the child process, once.
\<close>

theorem command_order:
  "take 16 (command e h tmp) =
     [java h, ''-jar'',
      str_path (absolute (getcwd e)
                  (path_join (heidel h) ''de.unihd.dbs.heideltime.standalone.jar'')),
      tmp, ''-l'', lang h, ''-t'', doc_type h, ''-o'', output_type h,
      ''-c'', str_path (conf_heideltime h), ''-e'', encoding h,
      ''-dct'', strftime (start_date h)]
 \<and> (root (heidel h) \<noteq> [] \<and> parts (heidel h) \<noteq> [] \<longrightarrow>
      command e h tmp ! 2 = str_path (heidel h) @ ''/de.unihd.dbs.heideltime.standalone.jar'')
 \<and> ((start_date h = Date y m d \<or> start_date h = Datetime y m d) \<and> valid_date y m d \<longrightarrow>
      command e h tmp ! 15 = str_nat y @ ''-'' @ two_digits m @ ''-'' @ two_digits d)
 \<and> ((start_date h = Date y m d \<or> start_date h = Datetime y m d) \<and> valid_date y m d
      \<and> 1000 \<le> y \<longrightarrow>
      length (command e h tmp ! 15) = 10
      \<and> command e h tmp ! 15 ! 4 = CHR ''-'' \<and> command e h tmp ! 15 ! 7 = CHR ''-''
      \<and> list_all is_digit (take 4 (command e h tmp ! 15) @ take 2 (drop 5 (command e h tmp ! 15))
                             @ drop 8 (command e h tmp ! 15)))
 \<and> (doc \<noteq> [] \<and> mkstemp e (files w) = Some tmp \<and> lookup_codec e (encoding h) = Some cd
      \<and> encode cd doc = Some content \<longrightarrow>
      spawned (snd (parse e h w doc)) = spawned w @ [command e h tmp])"
proof (intro conjI impI)
  show "take 16 (command e h tmp) =
     [java h, ''-jar'',
      str_path (absolute (getcwd e)
                  (path_join (heidel h) ''de.unihd.dbs.heideltime.standalone.jar'')),
      tmp, ''-l'', lang h, ''-t'', doc_type h, ''-o'', output_type h,
      ''-c'', str_path (conf_heideltime h), ''-e'', encoding h,
      ''-dct'', strftime (start_date h)]"
    by (rule take_command)
next
  assume a: "root (heidel h) \<noteq> [] \<and> parts (heidel h) \<noteq> []"
  have "command e h tmp ! 2 = str_path (absolute (getcwd e)
          (path_join (heidel h) ''de.unihd.dbs.heideltime.standalone.jar''))"
    by (simp add: command_def Let_def)
  also from a have "\<dots> = str_path (PurePath (root (heidel h))
          (parts (heidel h) @ [''de.unihd.dbs.heideltime.standalone.jar'']))"
    by (simp add: absolute_def path_join_def jar_name_Path)
  also from a have "\<dots> = str_path (heidel h) @ ''/de.unihd.dbs.heideltime.standalone.jar''"
    by (simp add: str_path_def join_append)
  finally show "command e h tmp ! 2
      = str_path (heidel h) @ ''/de.unihd.dbs.heideltime.standalone.jar''" .
next
  assume "(start_date h = Date y m d \<or> start_date h = Datetime y m d) \<and> valid_date y m d"
  then show "command e h tmp ! 15 = str_nat y @ ''-'' @ two_digits m @ ''-'' @ two_digits d"
    by (auto simp: command_nths strftime_parts)
next
  assume a: "(start_date h = Date y m d \<or> start_date h = Datetime y m d) \<and> valid_date y m d
      \<and> 1000 \<le> y"
  then have u: "y \<le> 9999" by (simp add: valid_date_def)
  from a have o: "start_date h = Date y m d \<or> start_date h = Datetime y m d"
    and l: "1000 \<le> y" by simp_all
  have s: "length (strftime (start_date h)) = 10
     \<and> strftime (start_date h) ! 4 = CHR ''-'' \<and> strftime (start_date h) ! 7 = CHR ''-''
     \<and> list_all is_digit (take 4 (strftime (start_date h))
          @ take 2 (drop 5 (strftime (start_date h))) @ drop 8 (strftime (start_date h)))"
    by (rule strftime_shape [OF o l u])
  from s show "length (command e h tmp ! 15) = 10" by (simp add: command_nths)
  from s show "command e h tmp ! 15 ! 4 = CHR ''-''" by (simp add: command_nths)
  from s show "command e h tmp ! 15 ! 7 = CHR ''-''" by (simp add: command_nths)
  from s show "list_all is_digit (take 4 (command e h tmp ! 15)
      @ take 2 (drop 5 (command e h tmp ! 15)) @ drop 8 (command e h tmp ! 15))"
    by (simp add: command_nths)
next
  assume "doc \<noteq> [] \<and> mkstemp e (files w) = Some tmp \<and> lookup_codec e (encoding h) = Some cd
      \<and> encode cd doc = Some content"
  then show "spawned (snd (parse e h w doc)) = spawned w @ [command e h tmp]"
    by (simp add: parse_reached run_tagger_spawned unlink_spawned)
qed

text \<open>The default object with the codec \<^verbatim>\<open>latin-1\<close>, parsing one word on the 15th of
  January 2026, and the same object after \<^verbatim>\<open>set_time\<close> has put it into the year
  999.\<close>

theorem command_order_witness:
  "root (heidel default_object) \<noteq> [] \<and> parts (heidel default_object) \<noteq> []
 \<and> command (machine (child_exits 0 [] [])) (default_object\<lparr>encoding := ''latin-1''\<rparr>)
      ''/tmp/heideltime_a1b2c3d4.tmp'' ! 2
     = str_path (heidel default_object) @ ''/de.unihd.dbs.heideltime.standalone.jar''
 \<and> valid_date 2026 1 15
 \<and> command (machine (child_exits 0 [] [])) (default_object\<lparr>encoding := ''latin-1''\<rparr>)
      ''/tmp/heideltime_a1b2c3d4.tmp'' ! 15 = ''2026-01-15''
 \<and> length (command (machine (child_exits 0 [] [])) (default_object\<lparr>encoding := ''latin-1''\<rparr>)
      ''/tmp/heideltime_a1b2c3d4.tmp'' ! 15) = 10
 \<and> mkstemp (machine (child_exits 0 [] [])) (files disk) = Some ''/tmp/heideltime_a1b2c3d4.tmp''
 \<and> lookup_codec (machine (child_exits 0 [] [])) ''latin-1'' = Some latin1_codec
 \<and> encode latin1_codec ''Hier'' = Some ''Hier''
 \<and> spawned (snd (parse (machine (child_exits 0 [] [])) (default_object\<lparr>encoding := ''latin-1''\<rparr>)
                      disk ''Hier''))
     = spawned disk @ [command (machine (child_exits 0 [] []))
                         (default_object\<lparr>encoding := ''latin-1''\<rparr>)
                         ''/tmp/heideltime_a1b2c3d4.tmp'']
 \<and> set_time default_object ''0999/01/01''
     = (Inr (), default_object\<lparr>start_date := Datetime 999 1 1\<rparr>)
 \<and> valid_date 999 1 1
 \<and> command (machine (child_exits 0 [] [])) (default_object\<lparr>start_date := Datetime 999 1 1\<rparr>)
      ''/tmp/heideltime_a1b2c3d4.tmp'' ! 15 = ''999-01-01''"
proof -
  let ?m = "machine (child_exits 0 [] [])"
  let ?h = "default_object\<lparr>encoding := ''latin-1''\<rparr>"
  let ?k = "default_object\<lparr>start_date := Datetime 999 1 1\<rparr>"
  let ?tmp = "''/tmp/heideltime_a1b2c3d4.tmp''"
  have a: "root (heidel ?h) \<noteq> [] \<and> parts (heidel ?h) \<noteq> []"
    by (simp add: default_object_def)
  have a': "root (heidel default_object) \<noteq> [] \<and> parts (heidel default_object) \<noteq> []"
    "heidel ?h = heidel default_object"
    by (simp_all add: default_object_def)
  have b: "''Hier'' \<noteq> []" by simp
  have c: "mkstemp ?m (files disk) = Some ?tmp" by code_simp
  have d: "lookup_codec ?m (encoding ?h) = Some latin1_codec"
    by (simp add: machine_def codecs_known)
  have d': "lookup_codec ?m ''latin-1'' = Some latin1_codec"
    by (simp add: machine_def codecs_known)
  have f: "encode latin1_codec ''Hier'' = Some ''Hier''" by (simp add: latin1_codec_def)
  have s: "start_date ?h = Date 2026 1 15 \<or> start_date ?h = Datetime 2026 1 15"
    by (simp add: default_object_def)
  have v: "valid_date 2026 1 15" "valid_date 999 1 1" by code_simp+
  have n: "str_nat 2026 @ ''-'' @ two_digits 1 @ ''-'' @ two_digits 15 = ''2026-01-15''"
    "str_nat 999 @ ''-'' @ two_digits 1 @ ''-'' @ two_digits 1 = ''999-01-01''"
    by code_simp+
  have t: "set_time default_object ''0999/01/01'' = (Inr (), ?k)" by code_simp
  have s': "start_date ?k = Date 999 1 1 \<or> start_date ?k = Datetime 999 1 1" by simp
  note T = command_order [of ?m ?h ?tmp 2026 1 15 "''Hier''" disk latin1_codec "''Hier''"]
  from T a have 1: "command ?m ?h ?tmp ! 2
      = str_path (heidel ?h) @ ''/de.unihd.dbs.heideltime.standalone.jar''" by blast
  from T s v have "command ?m ?h ?tmp ! 15
      = str_nat 2026 @ ''-'' @ two_digits 1 @ ''-'' @ two_digits 15" by blast
  from this n(1) have 2: "command ?m ?h ?tmp ! 15 = ''2026-01-15''" by (rule trans)
  have "(1000::nat) \<le> 2026" by simp
  with T s v have 3: "length (command ?m ?h ?tmp ! 15) = 10" by blast
  from T b c d f have 4: "spawned (snd (parse ?m ?h disk ''Hier''))
      = spawned disk @ [command ?m ?h ?tmp]" by blast
  from command_order [of ?m ?k ?tmp 999 1 1 "''Hier''" disk latin1_codec "''Hier''"] s' v
  have "command ?m ?k ?tmp ! 15 = str_nat 999 @ ''-'' @ two_digits 1 @ ''-'' @ two_digits 1"
    by blast
  from this n(2) have 5: "command ?m ?k ?tmp ! 15 = ''999-01-01''" by (rule trans)
  from a' 1 have j: "command ?m ?h ?tmp ! 2
      = str_path (heidel default_object) @ ''/de.unihd.dbs.heideltime.standalone.jar''"
    by simp
  from a'(1) j v 2 3 c d' f 4 t 5 show ?thesis by blast
qed

text \<open>
  Claim C4 as it is worded has the configured tool path itself after \<^verbatim>\<open>-jar\<close>. For the
  tool path \<^verbatim>\<open>/opt/heideltime\<close> the entry is the jar below it.
\<close>

theorem command_tool_path_counterexample:
  "init (machine (child_exits 0 [] [])) disk (Mapping default_config) = Inr default_object
 \<and> cfg_heideltime_path default_config = Some ''/opt/heideltime''
 \<and> str_path (heidel default_object) = ''/opt/heideltime''
 \<and> take 4 (command (machine (child_exits 0 [] [])) default_object
              ''/tmp/heideltime_a1b2c3d4.tmp'')
     = [''java'', ''-jar'', ''/opt/heideltime/de.unihd.dbs.heideltime.standalone.jar'',
        ''/tmp/heideltime_a1b2c3d4.tmp'']
 \<and> command (machine (child_exits 0 [] [])) default_object ''/tmp/heideltime_a1b2c3d4.tmp'' ! 2
     \<noteq> ''/opt/heideltime''"
  by code_simp

subsection \<open>Empty text\<close>

text \<open>
  Claim C5, as the code has it. For every object, \<^verbatim>\<open>parse\<close> on the empty text raises
  \<^verbatim>\<open>ValueError\<close> with the message \<^verbatim>\<open>No text provided to parse\<close> and leaves the
  world as it was: no file is written and no child process is started.
\<close>

theorem parse_empty_text:
  "parse e h w [] = (Inl (ValueError ''No text provided to parse''), w)"
  by (simp add: parse_def)

theorem parse_empty_text_witness:
  "parse (machine (child_exits 0 [] [])) default_object disk []
     = (Inl (ValueError ''No text provided to parse''), disk)
 \<and> spawned (snd (parse (machine (child_exits 0 [] [])) default_object disk [])) = []
 \<and> files (snd (parse (machine (child_exits 0 [] [])) default_object disk [])) = files disk"
  using parse_empty_text [of "machine (child_exits 0 [] [])" default_object disk]
  by (simp add: disk_def)

text \<open>Claim C5 as it is worded gives the message as \<^verbatim>\<open>no text provided\<close>, which is
  not the string that the code raises.\<close>

theorem parse_empty_text_message_counterexample:
  "fst (parse (machine (child_exits 0 [] [])) default_object disk [])
     \<noteq> Inl (ValueError ''no text provided'')"
  by (simp add: parse_def)

subsection \<open>Initialisation\<close>

text \<open>
  Claim C6. Whatever the configuration was loaded from, \<^verbatim>\<open>__init__\<close> fails when the
  mapping has no tool path, with the \<^verbatim>\<open>ValueError\<close> that asks for it, and fails when
  the tool path it names is not on the disk, with a \<^verbatim>\<open>FileNotFoundError\<close> that names
  the path; nothing else in the mapping is looked at before. Both are errors of the
  configuration.
\<close>

theorem init_needs_tool_path:
  assumes "loadconfig e w src = Inr c"
  shows "(cfg_heideltime_path c = None \<longrightarrow>
            init e w src = Inl (ValueError
              ''Please specify the path to Heideltime.standalone.jar in the configuration''))
       \<and> (cfg_heideltime_path c = Some p \<and> \<not> exists_path w (Path p) \<longrightarrow>
            init e w src = Inl (FileNotFoundError
              (''HeidelTime jar file is not found at '' @ str_path (Path p))))"
  using assms by (simp add: init_def)

text \<open>The mapping with no entry, and the default mapping with a tool path that is not on
  the disk.\<close>

theorem init_needs_tool_path_witness:
  "loadconfig (machine (child_exits 0 [] [])) disk (Mapping empty_config) = Inr empty_config
 \<and> cfg_heideltime_path empty_config = None
 \<and> init (machine (child_exits 0 [] [])) disk (Mapping empty_config)
     = Inl (ValueError
              ''Please specify the path to Heideltime.standalone.jar in the configuration'')
 \<and> \<not> exists_path disk (Path ''/opt/missing'')
 \<and> init (machine (child_exits 0 [] [])) disk
       (Mapping (default_config\<lparr>cfg_heideltime_path := Some ''/opt/missing''\<rparr>))
     = Inl (FileNotFoundError ''HeidelTime jar file is not found at /opt/missing'')"
proof -
  let ?m = "machine (child_exits 0 [] [])"
  let ?c = "default_config\<lparr>cfg_heideltime_path := Some ''/opt/missing''\<rparr>"
  have a: "loadconfig ?m disk (Mapping k) = Inr k" for k by (simp add: loadconfig_def)
  have b: "cfg_heideltime_path empty_config = None" by (simp add: empty_config_def)
  have c: "cfg_heideltime_path ?c = Some ''/opt/missing''" by simp
  have d: "\<not> exists_path disk (Path ''/opt/missing'')" by code_simp
  have s: "str_path (Path ''/opt/missing'') = ''/opt/missing''" by code_simp
  from init_needs_tool_path [OF a, of empty_config] b
  have 1: "init ?m disk (Mapping empty_config) = Inl (ValueError
              ''Please specify the path to Heideltime.standalone.jar in the configuration'')"
    by blast
  from init_needs_tool_path [OF a, of ?c "''/opt/missing''"] c d
  have "init ?m disk (Mapping ?c) = Inl (FileNotFoundError
          (''HeidelTime jar file is not found at '' @ str_path (Path ''/opt/missing'')))"
    by blast
  then have 2: "init ?m disk (Mapping ?c)
     = Inl (FileNotFoundError ''HeidelTime jar file is not found at /opt/missing'')"
    by (simp add: s)
  from a [of empty_config] b 1 d 2 show ?thesis by blast
qed

subsection \<open>Dates\<close>



subsection \<open>The checked setters\<close>

text \<open>
  Claim C8. The list of languages has fifteen entries. For a string whose lower-case form
  is not among them, \<^verbatim>\<open>set_lang\<close> raises \<^verbatim>\<open>ValueError\<close> and the object, its
  language included, is as it was before.
\<close>

theorem set_lang_rejects_unknown:
  assumes "lower l \<notin> set AVAILABLE_LANGUAGES"
  shows "length AVAILABLE_LANGUAGES = 15
    \<and> (\<exists>msg. fst (set_lang h l) = Inl (ValueError msg))
    \<and> snd (set_lang h l) = h
    \<and> lang (snd (set_lang h l)) = lang h"
  using assms by (simp add: set_lang_def AVAILABLE_LANGUAGES_def)

theorem set_lang_rejects_unknown_witness:
  "lower ''Klingon'' \<notin> set AVAILABLE_LANGUAGES
    \<and> (\<exists>msg. fst (set_lang default_object ''Klingon'') = Inl (ValueError msg))
    \<and> lang (snd (set_lang default_object ''Klingon'')) = ''french''"
proof -
  have a: "lower ''Klingon'' \<notin> set AVAILABLE_LANGUAGES" by code_simp
  have b: "lang default_object = ''french''" by (simp add: default_object_def)
  from set_lang_rejects_unknown [OF a, of default_object] a b show ?thesis by simp
qed



subsection \<open>The settings file\<close>

text \<open>
  Claim C9, as the code has it. With the flag true, \<^verbatim>\<open>set_config\<close> stores the given
  path itself. With the flag false and a given path that does not start with a slash, it
  stores the tool path followed by the components of the given path, which prints as the
  tool path, a slash and the given path when neither is without components. With the flag
  false and a given path that starts with a slash, it stores the given path itself, and the
  tool path is no part of it. No other attribute changes.
\<close>

theorem set_config_paths:
  "conf_heideltime (set_config h p True) = Path p
 \<and> (take 1 p \<noteq> ''/'' \<longrightarrow>
      conf_heideltime (set_config h p False)
        = PurePath (root (heidel h)) (parts (heidel h) @ parts (Path p)))
 \<and> (take 1 p = ''/'' \<longrightarrow> conf_heideltime (set_config h p False) = Path p)
 \<and> (take 1 p \<noteq> ''/'' \<and> parts (heidel h) \<noteq> [] \<and> parts (Path p) \<noteq> [] \<longrightarrow>
      str_path (conf_heideltime (set_config h p False))
        = str_path (heidel h) @ ''/'' @ str_path (Path p))
 \<and> set_config h p a = h\<lparr>conf_heideltime := conf_heideltime (set_config h p a)\<rparr>"
proof (intro conjI impI)
  show "conf_heideltime (set_config h p True) = Path p" by (simp add: set_config_def)
  show "set_config h p a = h\<lparr>conf_heideltime := conf_heideltime (set_config h p a)\<rparr>"
    by (simp add: set_config_def)
next
  assume "take 1 p \<noteq> ''/''"
  then show "conf_heideltime (set_config h p False)
        = PurePath (root (heidel h)) (parts (heidel h) @ parts (Path p))"
    by (simp add: set_config_def path_join_def Let_def root_Path)
next
  assume "take 1 p = ''/''"
  then have "root (Path p) \<noteq> []" by (simp add: root_Path)
  then show "conf_heideltime (set_config h p False) = Path p"
    by (simp add: set_config_def path_join_def Let_def)
next
  assume a: "take 1 p \<noteq> ''/'' \<and> parts (heidel h) \<noteq> [] \<and> parts (Path p) \<noteq> []"
  then have r: "root (Path p) = []" by (simp add: root_Path)
  with a have c: "conf_heideltime (set_config h p False)
        = PurePath (root (heidel h)) (parts (heidel h) @ parts (Path p))"
    by (simp add: set_config_def path_join_def Let_def)
  from a r have s: "str_path (Path p) = join ''/'' (parts (Path p))"
    by (simp add: str_path_def)
  from a show "str_path (conf_heideltime (set_config h p False))
        = str_path (heidel h) @ ''/'' @ str_path (Path p)"
    unfolding c s by (simp add: str_path_def join_append)
qed

text \<open>A relative and an absolute argument for the default object.\<close>

theorem set_config_paths_witness:
  "take 1 ''conf/config.props'' \<noteq> ''/'' \<and> parts (heidel default_object) \<noteq> []
 \<and> parts (Path ''conf/config.props'') \<noteq> []
 \<and> str_path (conf_heideltime (set_config default_object ''conf/config.props'' False))
     = ''/opt/heideltime/conf/config.props''
 \<and> take 1 ''/etc/config.props'' = ''/''
 \<and> str_path (conf_heideltime (set_config default_object ''/etc/config.props'' False))
     = ''/etc/config.props''"
proof -
  have a: "take 1 ''conf/config.props'' \<noteq> ''/''" by simp
  have b: "parts (heidel default_object) \<noteq> []" by (simp add: default_object_def)
  have c: "parts (Path ''conf/config.props'') \<noteq> []" by code_simp
  have d: "str_path (heidel default_object) @ ''/'' @ str_path (Path ''conf/config.props'')
             = ''/opt/heideltime/conf/config.props''" by code_simp
  have e: "take 1 ''/etc/config.props'' = ''/''" by simp
  have f: "str_path (Path ''/etc/config.props'') = ''/etc/config.props''" by code_simp
  from set_config_paths [of default_object "''conf/config.props''" True] a b c
  have "str_path (conf_heideltime (set_config default_object ''conf/config.props'' False))
     = str_path (heidel default_object) @ ''/'' @ str_path (Path ''conf/config.props'')"
    by blast
  from this d have 1: "str_path (conf_heideltime (set_config default_object ''conf/config.props'' False))
     = ''/opt/heideltime/conf/config.props''" by (rule trans)
  from set_config_paths [of default_object "''/etc/config.props''" True] e
  have "conf_heideltime (set_config default_object ''/etc/config.props'' False)
     = Path ''/etc/config.props''" by blast
  with f have 2: "str_path (conf_heideltime (set_config default_object ''/etc/config.props'' False))
     = ''/etc/config.props''" by (simp only:)
  from a b c e 1 2 show ?thesis by blast
qed

text \<open>
  Claim C9 as it is worded puts every given path below the tool path when the flag is
  false. An absolute one is stored as it is.
\<close>

theorem set_config_absolute_argument_counterexample:
  "conf_heideltime (set_config default_object ''/etc/heideltime/config.props'' False)
     \<noteq> PurePath (root (heidel default_object))
          (parts (heidel default_object) @ parts (Path ''/etc/heideltime/config.props''))
 \<and> str_path (heidel default_object) = ''/opt/heideltime''
 \<and> str_path (conf_heideltime (set_config default_object ''/etc/heideltime/config.props'' False))
     = ''/etc/heideltime/config.props''"
  by code_simp

end
